theory Spec2Isabelle
  imports Main "HOL-Library.Word" "HOL-Library.Signed_Division"
begin

unbundle bit_operations_syntax

section \<open>Machine types\<close>

text \<open>
  \<open>unsigned char\<close> is an 8-bit word. C's \<open>int\<close> and \<open>unsigned int\<close> are 32-bit words:
  the same bits, read by \<open>sint\<close> or by \<open>unat\<close>. A register address is the
  \<open>unsigned int reg\<close> of the regmap interface.
\<close>

type_synonym u8 = "8 word"
type_synonym u32 = "32 word"
type_synonym reg = "32 word"

section \<open>Register map (the defines of both source files, which agree)\<close>

definition DT_100THS :: nat where "DT_100THS = 0"
definition DT_SECS :: nat where "DT_SECS = 1"
definition DT_MINUTES :: nat where "DT_MINUTES = 2"
definition DT_HOURS :: nat where "DT_HOURS = 3"
definition DT_DAYS :: nat where "DT_DAYS = 4"
definition DT_WEEKDAYS :: nat where "DT_WEEKDAYS = 5"
definition DT_MONTHS :: nat where "DT_MONTHS = 6"
definition DT_YEARS :: nat where "DT_YEARS = 7"

definition DT_SECOND_ALM1 :: nat where "DT_SECOND_ALM1 = 8"
definition DT_MONTH_ALM1 :: nat where "DT_MONTH_ALM1 = 12"
definition DT_ALARM_EN :: reg where "DT_ALARM_EN = 0x10"

definition CTRL_INTA_EN :: reg where "CTRL_INTA_EN = 0x29"
definition CTRL_FLAGS :: reg where "CTRL_FLAGS = 0x2b"
definition CTRL_STOP_EN :: reg where "CTRL_STOP_EN = 0x2e"
definition CTRL_RESETS :: reg where "CTRL_RESETS = 0x2f"
definition CTRL_RAM :: reg where "CTRL_RAM = 0x40"

definition BIT :: "nat \<Rightarrow> u8" where "BIT n = push_bit n 1"

definition ALRM_SEC_A1E :: u8 where "ALRM_SEC_A1E = BIT 0"
definition ALRM_MIN_A1E :: u8 where "ALRM_MIN_A1E = BIT 1"
definition ALRM_HR_A1E :: u8 where "ALRM_HR_A1E = BIT 2"
definition ALRM_DAY_A1E :: u8 where "ALRM_DAY_A1E = BIT 3"
definition ALRM_MON_A1E :: u8 where "ALRM_MON_A1E = BIT 4"

definition INT_A1IE :: u8 where "INT_A1IE = BIT 4"
definition FLAGS_A1F :: u8 where "FLAGS_A1F = BIT 5"
definition STOP_EN_STOP :: u8 where "STOP_EN_STOP = BIT 0"
definition RESET_CPR :: u8 where "RESET_CPR = 0xa4"

text \<open>\<open>NVRAM_SIZE\<close> of rtc-pcf85363.c. No function of the file uses it.\<close>

definition NVRAM_SIZE :: nat where "NVRAM_SIZE = 0x40"

section \<open>The bus transport\<close>

text \<open>
  Modelled from the spec: the regmap transport (\<open>regmap_read\<close>, \<open>regmap_write\<close>,
  \<open>regmap_bulk_read\<close>, \<open>regmap_bulk_write\<close>, \<open>regmap_update_bits\<close>) is the kernel's,
  not this repository's. The spec describes it as a transaction of N bytes starting at a
  register address that returns success or failure, and the masked update as a
  read-modify-write of one byte that changes the bits of the mask only.

  A \<open>regmap\<close> value holds the device's register file, the transactions issued so far
  (oldest first) and the transport's verdicts: \<open>rc m n\<close> is the return code of the
  \<open>n\<close>-th transaction on this bus, 0 for success and a negative errno otherwise. A
  failed transaction is logged and leaves the register file as it was. Registers hold
  bytes (\<open>val_bits = 8\<close>).
\<close>

datatype txn =
    RegRead reg
  | RegWrite reg u8
  | BulkRead reg nat
  | BulkWrite reg "u8 list"
  | UpdateBits reg u8 u8

record regmap =
  regs :: "reg \<Rightarrow> u8"
  log :: "txn list"
  rc :: "nat \<Rightarrow> int"

definition issue :: "regmap \<Rightarrow> txn \<Rightarrow> int \<times> regmap" where
  "issue m t = (rc m (length (log m)), m\<lparr>log := log m @ [t]\<rparr>)"

primrec store_bytes :: "(reg \<Rightarrow> u8) \<Rightarrow> reg \<Rightarrow> u8 list \<Rightarrow> (reg \<Rightarrow> u8)" where
  "store_bytes f r [] = f"
| "store_bytes f r (v # vs) = store_bytes (f(r := v)) (r + 1) vs"

definition regmap_read :: "regmap \<Rightarrow> reg \<Rightarrow> int \<times> u8 \<times> regmap" where
  "regmap_read m r =
     (let (ret, m') = issue m (RegRead r)
      in if ret \<noteq> 0 then (ret, 0, m') else (0, regs m r, m'))"

definition regmap_write :: "regmap \<Rightarrow> reg \<Rightarrow> u8 \<Rightarrow> int \<times> regmap" where
  "regmap_write m r v =
     (let (ret, m') = issue m (RegWrite r v)
      in if ret \<noteq> 0 then (ret, m') else (0, m'\<lparr>regs := (regs m)(r := v)\<rparr>))"

definition regmap_bulk_read :: "regmap \<Rightarrow> reg \<Rightarrow> nat \<Rightarrow> int \<times> u8 list \<times> regmap" where
  "regmap_bulk_read m r n =
     (let (ret, m') = issue m (BulkRead r n)
      in if ret \<noteq> 0 then (ret, [], m')
         else (0, map (\<lambda>i. regs m (r + of_nat i)) [0..<n], m'))"

definition regmap_bulk_write :: "regmap \<Rightarrow> reg \<Rightarrow> u8 list \<Rightarrow> int \<times> regmap" where
  "regmap_bulk_write m r vs =
     (let (ret, m') = issue m (BulkWrite r vs)
      in if ret \<noteq> 0 then (ret, m') else (0, m'\<lparr>regs := store_bytes (regs m) r vs\<rparr>))"

definition regmap_update_bits :: "regmap \<Rightarrow> reg \<Rightarrow> u8 \<Rightarrow> u8 \<Rightarrow> int \<times> regmap" where
  "regmap_update_bits m r msk val =
     (let (ret, m') = issue m (UpdateBits r msk val)
      in if ret \<noteq> 0 then (ret, m')
         else (0, m'\<lparr>regs := (regs m)(r := (regs m r AND NOT msk) OR (val AND msk))\<rparr>))"

text \<open>What a transaction touches: the registers it writes, and whether it writes at all.\<close>

fun writes_of :: "txn \<Rightarrow> reg list" where
  "writes_of (RegRead r) = []"
| "writes_of (RegWrite r v) = [r]"
| "writes_of (BulkRead r n) = []"
| "writes_of (BulkWrite r vs) = map (\<lambda>i. r + of_nat i) [0..<length vs]"
| "writes_of (UpdateBits r msk val) = [r]"

fun is_write :: "txn \<Rightarrow> bool" where
  "is_write (RegRead r) = False"
| "is_write (BulkRead r n) = False"
| "is_write t = True"



text \<open>The transactions a call added to the log: the log after it, past the log before it.\<close>

definition issued :: "regmap \<Rightarrow> regmap \<Rightarrow> txn list" where
  "issued m m' = drop (length (log m)) (log m')"

section \<open>BCD conversion\<close>

text \<open>
  Modelled from the spec: \<open>bcd2bin\<close> and \<open>bin2bcd\<close> come from the kernel's
  \<open>linux/bcd.h\<close>, which is not part of this repository. The spec gives them as: a byte
  \<open>b\<close> decodes to \<open>10*((b>>4)&0xF) + (b&0xF)\<close>, and a value \<open>v\<close> encodes to
  \<open>((v/10)<<4) | (v%10)\<close>. The kernel declares \<open>unsigned bcd2bin(unsigned char)\<close> and
  \<open>unsigned char bin2bcd(unsigned)\<close>: the arithmetic is unsigned 32-bit, and the
  encoded value is cut to a byte.
\<close>

definition bcd2bin :: "u8 \<Rightarrow> u32" where
  "bcd2bin b = 10 * (drop_bit 4 (ucast b) AND 0xF) + (ucast b AND 0xF)"

definition bin2bcd :: "u32 \<Rightarrow> u8" where
  "bin2bcd v = ucast (push_bit 4 (v div 10) OR (v mod 10))"

section \<open>The host's time value\<close>

text \<open>
  \<open>struct rtc_time\<close> of the kernel: nine \<open>int\<close> fields. \<open>tm_year\<close> counts from 1900 and
  \<open>tm_mon\<close> from 0.
\<close>

record rtc_time =
  tm_sec :: u32
  tm_min :: u32
  tm_hour :: u32
  tm_mday :: u32
  tm_mon :: u32
  tm_year :: u32
  tm_wday :: u32
  tm_yday :: u32
  tm_isdst :: u32

text \<open>\<open>tm->tm_year % 100\<close> on C's \<open>int\<close>: the remainder of the truncating division.\<close>

definition int_rem :: "u32 \<Rightarrow> u32 \<Rightarrow> u32" where
  "int_rem a b = word_of_int (sint a smod sint b)"

section \<open>rtc-pcf85363.c\<close>

text \<open>
  \<open>struct pcf85363\<close>: the rtc device and the regmap. The rtc device is modelled by the
  events reported to it through \<open>rtc_update_irq\<close> (the number of interrupts and the event
  mask of each call), oldest first. \<open>printk\<close> and \<open>dev_err\<close> only log and are left out.
\<close>

record pcf85363 =
  rtc :: "(nat \<times> u8) list"
  regmap :: regmap

text \<open>
  Lines 136 to 147 of \<open>pcf85363_rtc_read_time\<close>: the fields of \<open>tm\<close> computed from the
  eight bytes read. \<open>tm\<close> is an out parameter: \<open>tm_yday\<close> and \<open>tm_isdst\<close> keep what the
  caller had there.
\<close>

definition pcf85363_decode :: "u8 list \<Rightarrow> rtc_time \<Rightarrow> rtc_time" where
  "pcf85363_decode buf tm =
     tm\<lparr>tm_year := bcd2bin (buf ! DT_YEARS) + 100,
        tm_wday := ucast (buf ! DT_WEEKDAYS AND 7),
        tm_sec := bcd2bin (buf ! DT_SECS AND 0x7F),
        tm_min := bcd2bin (buf ! DT_MINUTES AND 0x7F),
        tm_hour := bcd2bin (buf ! DT_HOURS),
        tm_mday := bcd2bin (buf ! DT_DAYS),
        tm_mon := bcd2bin (buf ! DT_MONTHS) - 1\<rparr>"

definition pcf85363_rtc_read_time :: "pcf85363 \<Rightarrow> rtc_time \<Rightarrow> int \<times> rtc_time \<times> pcf85363" where
  "pcf85363_rtc_read_time p tm =
     (let (ret, buf, m) = regmap_bulk_read (regmap p) (of_nat DT_100THS) (DT_YEARS + 1)
      in if ret \<noteq> 0 then (ret, tm, p\<lparr>regmap := m\<rparr>)
         else (0, pcf85363_decode buf tm, p\<lparr>regmap := m\<rparr>))"

text \<open>
  Lines 163 to 170 of \<open>pcf85363_rtc_set_time\<close>: the eight bytes \<open>buf[DT_100THS]\<close> to
  \<open>buf[DT_YEARS]\<close>, in register order.
\<close>

definition pcf85363_encode :: "rtc_time \<Rightarrow> u8 list" where
  "pcf85363_encode tm =
     [0,
      bin2bcd (tm_sec tm),
      bin2bcd (tm_min tm),
      bin2bcd (tm_hour tm),
      bin2bcd (tm_mday tm),
      ucast (tm_wday tm),
      bin2bcd (tm_mon tm + 1),
      bin2bcd (int_rem (tm_year tm) 100)]"

text \<open>
  \<open>pcf85363_rtc_set_time\<close>. \<open>tmp\<close> has 11 bytes and \<open>buf\<close> points at \<open>tmp[2]\<close>; the code
  assigns \<open>tmp[0]\<close>, \<open>tmp[1]\<close> and \<open>buf[0]\<close> to \<open>buf[7]\<close>, that is \<open>tmp[2]\<close> to \<open>tmp[9]\<close>.
  \<open>tmp[10]\<close> is never assigned: it holds whatever the stack held, the parameter
  \<open>stack\<close> here. The first bulk write sends two bytes, to \<open>CTRL_STOP_EN\<close> and to
  \<open>CTRL_RESETS\<close> after it; the second sends \<open>sizeof(tmp) - 2 = 9\<close> bytes from \<open>buf\<close>.
\<close>

definition pcf85363_rtc_set_time :: "u8 \<Rightarrow> pcf85363 \<Rightarrow> rtc_time \<Rightarrow> int \<times> pcf85363" where
  "pcf85363_rtc_set_time stack p tm =
     (let tmp = [STOP_EN_STOP, RESET_CPR] @ pcf85363_encode tm @ [stack];
          buf = drop 2 tmp;
          (ret, m) = regmap_bulk_write (regmap p) CTRL_STOP_EN (take 2 tmp)
      in if ret \<noteq> 0 then (ret, p\<lparr>regmap := m\<rparr>)
         else
           (let (ret, m) = regmap_bulk_write m (of_nat DT_100THS) (take (length tmp - 2) buf)
            in if ret \<noteq> 0 then (ret, p\<lparr>regmap := m\<rparr>)
               else
                 (let (ret, m) = regmap_write m CTRL_STOP_EN 0
                  in (ret, p\<lparr>regmap := m\<rparr>))))"

text \<open>
  \<open>struct rtc_wkalrm\<close> of the kernel: \<open>enabled\<close> and \<open>pending\<close> are \<open>unsigned char\<close>.
\<close>

record rtc_wkalrm =
  wk_enabled :: u8
  wk_pending :: u8
  wk_time :: rtc_time

text \<open>
  \<open>pcf85363_rtc_read_alarm\<close>. The five time fields are stored into \<open>alrm\<close> before the
  second read, so they stay there when that read fails.
\<close>

definition pcf85363_rtc_read_alarm :: "pcf85363 \<Rightarrow> rtc_wkalrm \<Rightarrow> int \<times> rtc_wkalrm \<times> pcf85363" where
  "pcf85363_rtc_read_alarm p alrm =
     (let (ret, buf, m) =
            regmap_bulk_read (regmap p) (of_nat DT_SECOND_ALM1) (DT_MONTH_ALM1 - DT_SECOND_ALM1 + 1)
      in if ret \<noteq> 0 then (ret, alrm, p\<lparr>regmap := m\<rparr>)
         else
           (let alrm = alrm\<lparr>wk_time := (wk_time alrm)
                         \<lparr>tm_sec := bcd2bin (buf ! 0),
                          tm_min := bcd2bin (buf ! 1),
                          tm_hour := bcd2bin (buf ! 2),
                          tm_mday := bcd2bin (buf ! 3),
                          tm_mon := bcd2bin (buf ! 4) - 1\<rparr>\<rparr>;
                (ret, val, m) = regmap_read m CTRL_INTA_EN
            in if ret \<noteq> 0 then (ret, alrm, p\<lparr>regmap := m\<rparr>)
               else (0, alrm\<lparr>wk_enabled := (if val AND INT_A1IE \<noteq> 0 then 1 else 0)\<rparr>,
                     p\<lparr>regmap := m\<rparr>)))"

text \<open>\<open>_pcf85363_rtc_alarm_irq_enable\<close>. \<open>enabled\<close> is an \<open>unsigned int\<close>, true when not 0.\<close>

definition alarm_flags :: u8 where
  "alarm_flags = ALRM_SEC_A1E OR ALRM_MIN_A1E OR ALRM_HR_A1E OR ALRM_DAY_A1E OR ALRM_MON_A1E"

definition pcf85363_rtc_alarm_irq_enable' :: "pcf85363 \<Rightarrow> u32 \<Rightarrow> int \<times> pcf85363" where
  "pcf85363_rtc_alarm_irq_enable' p enabled =
     (let (ret, m) = regmap_update_bits (regmap p) DT_ALARM_EN alarm_flags
                       (if enabled \<noteq> 0 then alarm_flags else 0)
      in if ret \<noteq> 0 then (ret, p\<lparr>regmap := m\<rparr>)
         else
           (let (ret, m) = regmap_update_bits m CTRL_INTA_EN INT_A1IE
                             (if enabled \<noteq> 0 then INT_A1IE else 0)
            in if ret \<noteq> 0 \<or> enabled \<noteq> 0 then (ret, p\<lparr>regmap := m\<rparr>)
               else
                 (let (ret, m) = regmap_update_bits m CTRL_FLAGS FLAGS_A1F 0
                  in (ret, p\<lparr>regmap := m\<rparr>))))"

text \<open>\<open>pcf85363_rtc_alarm_irq_enable\<close>, the callback: it only forwards.\<close>

definition pcf85363_rtc_alarm_irq_enable :: "pcf85363 \<Rightarrow> u32 \<Rightarrow> int \<times> pcf85363" where
  "pcf85363_rtc_alarm_irq_enable p enabled = pcf85363_rtc_alarm_irq_enable' p enabled"

text \<open>\<open>pcf85363_rtc_set_alarm\<close>.\<close>

definition pcf85363_rtc_set_alarm :: "pcf85363 \<Rightarrow> rtc_wkalrm \<Rightarrow> int \<times> pcf85363" where
  "pcf85363_rtc_set_alarm p alrm =
     (let buf = [bin2bcd (tm_sec (wk_time alrm)),
                 bin2bcd (tm_min (wk_time alrm)),
                 bin2bcd (tm_hour (wk_time alrm)),
                 bin2bcd (tm_mday (wk_time alrm)),
                 bin2bcd (tm_mon (wk_time alrm) + 1)];
          (ret, p) = pcf85363_rtc_alarm_irq_enable' p 0
      in if ret \<noteq> 0 then (ret, p)
         else
           (let (ret, m) = regmap_bulk_write (regmap p) (of_nat DT_SECOND_ALM1) buf
            in if ret \<noteq> 0 then (ret, p\<lparr>regmap := m\<rparr>)
               else pcf85363_rtc_alarm_irq_enable' (p\<lparr>regmap := m\<rparr>) (ucast (wk_enabled alrm))))"

text \<open>
  \<open>pcf85363_rtc_handle_irq\<close>. \<open>RTC_IRQF\<close> and \<open>RTC_AF\<close> are the kernel's event bits
  (\<open>linux/rtc.h\<close>). The result of the masked update is not looked at.
\<close>

datatype irqreturn = IRQ_NONE | IRQ_HANDLED

definition RTC_IRQF :: u8 where "RTC_IRQF = 0x80"
definition RTC_AF :: u8 where "RTC_AF = 0x20"

definition pcf85363_rtc_handle_irq :: "pcf85363 \<Rightarrow> irqreturn \<times> pcf85363" where
  "pcf85363_rtc_handle_irq p =
     (let (err, flags, m) = regmap_read (regmap p) CTRL_FLAGS
      in if err \<noteq> 0 then (IRQ_NONE, p\<lparr>regmap := m\<rparr>)
         else if flags AND FLAGS_A1F \<noteq> 0 then
           (let p = p\<lparr>rtc := rtc p @ [(1, RTC_IRQF OR RTC_AF)]\<rparr>;
                (ret, m) = regmap_update_bits m CTRL_FLAGS FLAGS_A1F 0
            in (IRQ_HANDLED, p\<lparr>regmap := m\<rparr>))
         else (IRQ_NONE, p\<lparr>regmap := m\<rparr>))"

text \<open>
  \<open>pcf85363_nvram_read\<close> and \<open>pcf85363_nvram_write\<close>. \<open>offset\<close> is an \<open>unsigned int\<close>,
  so \<open>CTRL_RAM + offset\<close> wraps at 32 bits; \<open>bytes\<close> is a \<open>size_t\<close> that is only
  passed on. The buffer \<open>val\<close> of the write is the memory at the pointer: \<open>val i\<close> is
  its \<open>i\<close>-th byte.
\<close>

definition pcf85363_nvram_read :: "pcf85363 \<Rightarrow> u32 \<Rightarrow> nat \<Rightarrow> int \<times> u8 list \<times> pcf85363" where
  "pcf85363_nvram_read p offset bytes =
     (let (ret, val, m) = regmap_bulk_read (regmap p) (CTRL_RAM + offset) bytes
      in (ret, val, p\<lparr>regmap := m\<rparr>))"

definition pcf85363_nvram_write :: "pcf85363 \<Rightarrow> u32 \<Rightarrow> (nat \<Rightarrow> u8) \<Rightarrow> nat \<Rightarrow> int \<times> pcf85363" where
  "pcf85363_nvram_write p offset val bytes =
     (let (ret, m) = regmap_bulk_write (regmap p) (CTRL_RAM + offset) (map val [0..<bytes])
      in (ret, p\<lparr>regmap := m\<rparr>))"

text \<open>
  \<open>struct rtc_class_ops\<close>, with the five callbacks this driver knows: a callback a
  designated initialiser leaves out is a null pointer, \<open>None\<close> here.
\<close>

record rtc_class_ops =
  ops_read_time :: "(pcf85363 \<Rightarrow> rtc_time \<Rightarrow> int \<times> rtc_time \<times> pcf85363) option"
  ops_set_time :: "(u8 \<Rightarrow> pcf85363 \<Rightarrow> rtc_time \<Rightarrow> int \<times> pcf85363) option"
  ops_read_alarm :: "(pcf85363 \<Rightarrow> rtc_wkalrm \<Rightarrow> int \<times> rtc_wkalrm \<times> pcf85363) option"
  ops_set_alarm :: "(pcf85363 \<Rightarrow> rtc_wkalrm \<Rightarrow> int \<times> pcf85363) option"
  ops_alarm_irq_enable :: "(pcf85363 \<Rightarrow> u32 \<Rightarrow> int \<times> pcf85363) option"

definition rtc_ops :: rtc_class_ops where
  "rtc_ops =
     \<lparr>ops_read_time = Some pcf85363_rtc_read_time,
      ops_set_time = Some pcf85363_rtc_set_time,
      ops_read_alarm = None,
      ops_set_alarm = None,
      ops_alarm_irq_enable = None\<rparr>"

definition rtc_ops_alarm :: rtc_class_ops where
  "rtc_ops_alarm =
     \<lparr>ops_read_time = Some pcf85363_rtc_read_time,
      ops_set_time = Some pcf85363_rtc_set_time,
      ops_read_alarm = Some pcf85363_rtc_read_alarm,
      ops_set_alarm = Some pcf85363_rtc_set_alarm,
      ops_alarm_irq_enable = Some pcf85363_rtc_alarm_irq_enable\<rparr>"

text \<open>
  \<open>pcf85363_probe\<close>. What the kernel answers is the input: whether the adapter does
  plain I2C, whether the allocation succeeds, and the error of the rtc registration
  (0 when it succeeds). What the driver hands to the kernel is the output: each
  registration it makes. The kernel offers three kinds to a driver like this one: an rtc
  device with its table of callbacks, an interrupt handler, and an nvmem bank with its
  read and write functions. The probe allocates the zeroed \<open>struct pcf85363\<close> and
  stores it as the client's data; it does not assign its \<open>regmap\<close>, which the functions
  above take as given.
\<close>

record i2c_client =
  adapter_does_i2c :: bool
  kzalloc_ok :: bool
  rtc_register_err :: int

datatype registration =
    RtcDevice string rtc_class_ops
  | IrqHandler "pcf85363 \<Rightarrow> irqreturn \<times> pcf85363"
  | NvmemBank "pcf85363 \<Rightarrow> u32 \<Rightarrow> nat \<Rightarrow> int \<times> u8 list \<times> pcf85363"
              "pcf85363 \<Rightarrow> u32 \<Rightarrow> (nat \<Rightarrow> u8) \<Rightarrow> nat \<Rightarrow> int \<times> pcf85363"

definition ENODEV :: int where "ENODEV = 19"
definition ENOMEM :: int where "ENOMEM = 12"

definition pcf85363_probe :: "i2c_client \<Rightarrow> int \<times> registration list" where
  "pcf85363_probe client =
     (if \<not> adapter_does_i2c client then (- ENODEV, [])
      else if \<not> kzalloc_ok client then (- ENOMEM, [])
      else if rtc_register_err client \<noteq> 0 then (rtc_register_err client, [])
      else (0, [RtcDevice ''pcf85363'' rtc_ops]))"

text \<open>The callbacks a registration makes reachable, by the name of the source function.\<close>

datatype entry_point =
    Read_time | Set_time | Read_alarm | Set_alarm | Alarm_irq_enable
  | Handle_irq | Nvram_read | Nvram_write

definition ops_entries :: "rtc_class_ops \<Rightarrow> entry_point list" where
  "ops_entries ops =
     (if ops_read_time ops = None then [] else [Read_time]) @
     (if ops_set_time ops = None then [] else [Set_time]) @
     (if ops_read_alarm ops = None then [] else [Read_alarm]) @
     (if ops_set_alarm ops = None then [] else [Set_alarm]) @
     (if ops_alarm_irq_enable ops = None then [] else [Alarm_irq_enable])"

fun reachable :: "registration \<Rightarrow> entry_point list" where
  "reachable (RtcDevice name ops) = ops_entries ops"
| "reachable (IrqHandler h) = [Handle_irq]"
| "reachable (NvmemBank r w) = [Nvram_read, Nvram_write]"

section \<open>rtc-pcf85263.c\<close>

text \<open>\<open>struct pcf85263\<close>, the same two fields.\<close>

record pcf85263 =
  rtc_85263 :: "(nat \<times> u8) list"
  regmap_85263 :: regmap



text \<open>Lines 159 to 166 of \<open>pcf85263_rtc_set_time\<close>.\<close>

definition pcf85263_encode :: "rtc_time \<Rightarrow> u8 list" where
  "pcf85263_encode tm =
     [0,
      bin2bcd (tm_sec tm),
      bin2bcd (tm_min tm),
      bin2bcd (tm_hour tm),
      bin2bcd (tm_mday tm),
      ucast (tm_wday tm),
      bin2bcd (tm_mon tm + 1),
      bin2bcd (int_rem (tm_year tm) 100)]"

text \<open>\<open>pcf85263_rtc_set_time\<close>, with the same 11-byte \<open>tmp\<close> and the same unassigned \<open>tmp[10]\<close>.\<close>

definition pcf85263_rtc_set_time :: "u8 \<Rightarrow> pcf85263 \<Rightarrow> rtc_time \<Rightarrow> int \<times> pcf85263" where
  "pcf85263_rtc_set_time stack p tm =
     (let tmp = [STOP_EN_STOP, RESET_CPR] @ pcf85263_encode tm @ [stack];
          buf = drop 2 tmp;
          (ret, m) = regmap_bulk_write (regmap_85263 p) CTRL_STOP_EN (take 2 tmp)
      in if ret \<noteq> 0 then (ret, p\<lparr>regmap_85263 := m\<rparr>)
         else
           (let (ret, m) = regmap_bulk_write m (of_nat DT_100THS) (take (length tmp - 2) buf)
            in if ret \<noteq> 0 then (ret, p\<lparr>regmap_85263 := m\<rparr>)
               else
                 (let (ret, m) = regmap_write m CTRL_STOP_EN 0
                  in (ret, p\<lparr>regmap_85263 := m\<rparr>))))"

section \<open>Concrete devices and times\<close>

text \<open>
  A register file given by the registers that are not 0, a transport that never fails,
  one that fails the \<open>k\<close>-th transaction with the code \<open>e\<close>, and a device on a fresh bus.
\<close>

definition reg_file :: "(reg \<times> u8) list \<Rightarrow> reg \<Rightarrow> u8" where
  "reg_file kvs r = (case map_of kvs r of None \<Rightarrow> 0 | Some v \<Rightarrow> v)"

definition never_fails :: "nat \<Rightarrow> int" where
  "never_fails n = 0"

definition fails_at :: "nat \<Rightarrow> int \<Rightarrow> nat \<Rightarrow> int" where
  "fails_at k e n = (if n = k then e else 0)"

definition bus :: "(reg \<times> u8) list \<Rightarrow> (nat \<Rightarrow> int) \<Rightarrow> regmap" where
  "bus kvs f = \<lparr>regs = reg_file kvs, log = [], rc = f\<rparr>"

definition dev :: "(reg \<times> u8) list \<Rightarrow> (nat \<Rightarrow> int) \<Rightarrow> pcf85363" where
  "dev kvs f = \<lparr>rtc = [], regmap = bus kvs f\<rparr>"

definition dev_85263 :: "(reg \<times> u8) list \<Rightarrow> (nat \<Rightarrow> int) \<Rightarrow> pcf85263" where
  "dev_85263 kvs f = \<lparr>rtc_85263 = [], regmap_85263 = bus kvs f\<rparr>"

definition fill :: "u8 \<Rightarrow> nat \<Rightarrow> u8" where
  "fill v i = v"

definition EIO :: int where "EIO = 5"

text \<open>
  18 December 2023, 09:05:00, weekday 1, as the kernel passes it (\<open>tm_year\<close> from 1900,
  \<open>tm_mon\<close> from 0), and the same moment as the spec's scenario writes it (year 23,
  month 12).
\<close>

definition kernel_time :: rtc_time where
  "kernel_time =
     \<lparr>tm_sec = 0, tm_min = 5, tm_hour = 9, tm_mday = 18, tm_mon = 11, tm_year = 123,
      tm_wday = 1, tm_yday = 0, tm_isdst = 0\<rparr>"

definition scenario_time :: rtc_time where
  "scenario_time =
     \<lparr>tm_sec = 0, tm_min = 5, tm_hour = 9, tm_mday = 18, tm_mon = 12, tm_year = 23,
      tm_wday = 1, tm_yday = 0, tm_isdst = 0\<rparr>"

section \<open>Facts about the transport, the flag bits and the BCD bytes\<close>

lemmas transport_defs =
  regmap_read_def regmap_write_def regmap_bulk_read_def regmap_bulk_write_def
  regmap_update_bits_def issue_def issued_def Let_def

lemmas fixture_defs =
  dev_def dev_85263_def bus_def reg_file_def never_fails_def fails_at_def fill_def

lemmas dt_defs =
  DT_100THS_def DT_SECS_def DT_MINUTES_def DT_HOURS_def DT_DAYS_def DT_WEEKDAYS_def
  DT_MONTHS_def DT_YEARS_def DT_SECOND_ALM1_def

lemmas ctrl_defs =
  DT_ALARM_EN_def CTRL_INTA_EN_def CTRL_FLAGS_def CTRL_STOP_EN_def CTRL_RAM_def
  STOP_EN_STOP_def RESET_CPR_def INT_A1IE_def FLAGS_A1F_def alarm_flags_def
  ALRM_SEC_A1E_def ALRM_MIN_A1E_def ALRM_HR_A1E_def ALRM_DAY_A1E_def ALRM_MON_A1E_def BIT_def

lemma bit_FLAGS_A1F: "bit FLAGS_A1F i = (i = 5)"
proof -
  have "bit (2 ^ 5 :: u8) i = (i = 5)"
    unfolding bit_exp_iff by auto
  then show ?thesis by (simp add: FLAGS_A1F_def BIT_def)
qed

lemma and_FLAGS_A1F: "(x AND FLAGS_A1F \<noteq> 0) = bit x 5"
  using and_exp_eq_0_iff_not_bit [of x 5]
  by (simp add: FLAGS_A1F_def BIT_def)

lemma bit_clear_A1F: "bit (x AND NOT FLAGS_A1F) i = (bit x i \<and> i \<noteq> 5)"
  by (auto simp add: bit_simps bit_FLAGS_A1F dest: bit_imp_le_length)

text \<open>
  A byte is one of 256 values and a field in range one of a few dozen: the facts about
  the BCD functions are checked value by value.
\<close>

lemma byte_cases: "unat (b :: u8) \<in> set [0..<256]"
  using unsigned_less [of b] by simp

lemma word_below:
  assumes "(v :: u32) < of_nat k" and "k < 2 ^ 32"
  shows "\<exists>n\<in>set [0..<k]. v = of_nat n"
proof -
  from assms have "unat v < k"
    by (simp add: word_less_nat_alt unat_of_nat)
  then have "unat v \<in> set [0..<k]" by simp
  moreover have "v = of_nat (unat v)" by simp
  ultimately show ?thesis by blast
qed

lemma bcd2bin_table:
  "\<forall>n\<in>set [0..<256]. bcd2bin (of_nat n) = of_nat (10 * (n div 16) + n mod 16)"
  by code_simp

lemma bcd2bin_nat: "bcd2bin b = of_nat (10 * (unat b div 16) + unat b mod 16)"
proof -
  from bcd2bin_table byte_cases [of b]
  have "bcd2bin (of_nat (unat b)) = of_nat (10 * (unat b div 16) + unat b mod 16)"
    by blast
  then show ?thesis by simp
qed

lemma and_7F_table: "\<forall>n\<in>set [0..<256]. unat ((of_nat n :: u8) AND 0x7F) = n mod 128"
  by code_simp

lemma unat_and_7F: "unat ((b :: u8) AND 0x7F) = unat b mod 128"
proof -
  from and_7F_table byte_cases [of b]
  have "unat ((of_nat (unat b) :: u8) AND 0x7F) = unat b mod 128"
    by blast
  then show ?thesis by simp
qed

lemma and_7_table:
  "\<forall>n\<in>set [0..<256]. (ucast ((of_nat n :: u8) AND 7) :: u32) = of_nat (n mod 8)"
  by code_simp

lemma ucast_and_7: "(ucast ((b :: u8) AND 7) :: u32) = of_nat (unat b mod 8)"
proof -
  from and_7_table byte_cases [of b]
  have "(ucast ((of_nat (unat b) :: u8) AND 7) :: u32) = of_nat (unat b mod 8)"
    by blast
  then show ?thesis by simp
qed

lemma map_upt_8: "map f [0..<8] = [f 0, f 1, f 2, f 3, f 4, f 5, f 6, f 7]"
  by (simp add: upt_rec numeral_eq_Suc)

lemma bcd_table: "\<forall>n\<in>set [0..<100]. bcd2bin (bin2bcd (of_nat n)) = of_nat n"
  by code_simp

lemma bcd_masked_table:
  "\<forall>n\<in>set [0..<60]. bcd2bin (bin2bcd (of_nat n) AND 0x7F) = of_nat n"
  by code_simp

lemma month_table: "\<forall>n\<in>set [0..<13]. bcd2bin (bin2bcd (of_nat n + 1)) - 1 = of_nat n"
  by code_simp

lemma wday_table:
  "\<forall>n\<in>set [0..<7]. ucast ((ucast (of_nat n :: u32) :: u8) AND 7) = (of_nat n :: u32)"
  by code_simp

lemma year_table:
  "\<forall>n\<in>set [0..<100].
     bcd2bin (bin2bcd (int_rem (of_nat n + 100) 100)) + 100 = of_nat n + 100"
  by code_simp

lemma bcd_roundtrip: "v < 100 \<Longrightarrow> bcd2bin (bin2bcd v) = v"
  using word_below [of v 100] bcd_table by auto

lemma bcd_masked_roundtrip: "v < 60 \<Longrightarrow> bcd2bin (bin2bcd v AND 0x7F) = v"
  using word_below [of v 60] bcd_masked_table by auto

lemma month_roundtrip:
  assumes "v \<le> 12"
  shows "bcd2bin (bin2bcd (v + 1)) - 1 = v"
proof -
  from assms have "v < 13" by unat_arith
  then show ?thesis
    using word_below [of v 13] month_table by auto
qed

lemma wday_roundtrip: "v < 7 \<Longrightarrow> ucast ((ucast (v :: u32) :: u8) AND 7) = v"
  using word_below [of v 7] wday_table by auto

lemma year_roundtrip:
  assumes "100 \<le> v" and "v < 200"
  shows "bcd2bin (bin2bcd (int_rem v 100)) + 100 = v"
proof -
  from assms have "v - 100 < 100" by unat_arith
  then obtain n where "n \<in> set [0..<100]" and "v - 100 = of_nat n"
    using word_below [of "v - 100" 100] by auto
  moreover have "v = (v - 100) + 100" by simp
  ultimately have "n \<in> set [0..<100]" and "v = of_nat n + 100" by simp_all
  then show ?thesis
    using year_table by auto
qed

section \<open>The time codec\<close>

text \<open>
  C3, as the code has it. \<open>pcf85363_rtc_read_time\<close> issues one transaction, the bulk read
  of the eight registers from 0, changes no register and returns what the transport
  returned for that read: it has no error of its own. When the read fails, the time of
  the caller is left as it was. When it succeeds, the time returned is the decoding of
  the eight bytes read: each BCD field is ten times the high nibble plus the low nibble of
  its register, a nibble of 10 to 15 counted like any other (bit 7 is masked off first in
  the seconds and the minutes); the month is that value less 1, the year that value plus
  100, the weekday the low three bits, and the two other fields stay the caller's.
\<close>

theorem C3_read_time_accepts_every_nibble:
  "let m = regmap p; n = length (log m); res = pcf85363_rtc_read_time p tm;
       t = fst (snd res); m' = regmap (snd (snd res));
       b = (\<lambda>i. unat (regs m (of_nat i)))
   in issued m m' = [BulkRead 0 8]
    \<and> fst res = rc m n
    \<and> regs m' = regs m
    \<and> (rc m n \<noteq> 0 \<longrightarrow> t = tm)
    \<and> (rc m n = 0 \<longrightarrow>
         pcf85363_decode (map (\<lambda>i. regs m (of_nat i)) [0..<8]) tm = t
       \<and> tm_sec t = of_nat (10 * (b DT_SECS mod 128 div 16) + b DT_SECS mod 16)
       \<and> tm_min t = of_nat (10 * (b DT_MINUTES mod 128 div 16) + b DT_MINUTES mod 16)
       \<and> tm_hour t = of_nat (10 * (b DT_HOURS div 16) + b DT_HOURS mod 16)
       \<and> tm_mday t = of_nat (10 * (b DT_DAYS div 16) + b DT_DAYS mod 16)
       \<and> tm_wday t = of_nat (b DT_WEEKDAYS mod 8)
       \<and> tm_mon t = of_nat (10 * (b DT_MONTHS div 16) + b DT_MONTHS mod 16) - 1
       \<and> tm_year t = of_nat (10 * (b DT_YEARS div 16) + b DT_YEARS mod 16) + 100
       \<and> tm_yday t = tm_yday tm \<and> tm_isdst t = tm_isdst tm)"
proof -
  have "unat x mod 128 mod 16 = unat x mod 16" for x :: u8
    by (simp add: mod_mod_cancel)
  then show ?thesis
    by (simp add: pcf85363_rtc_read_time_def transport_defs pcf85363_decode_def dt_defs
        bcd2bin_nat unat_and_7F ucast_and_7 map_upt_8 split: prod.splits)
qed

text \<open>
  A seconds register of 0x8A (bit 7 set, low nibble 10) is read as 10 seconds and an
  hours register of 0x1D (low nibble 13) as 23 hours; a read that fails leaves the time.
\<close>

theorem C3_read_time_witness:
  "fst (pcf85363_rtc_read_time (dev [(1, 0x8A), (3, 0x1D)] never_fails) kernel_time) = 0
   \<and> issued (bus [(1, 0x8A), (3, 0x1D)] never_fails)
        (regmap (snd (snd (pcf85363_rtc_read_time (dev [(1, 0x8A), (3, 0x1D)] never_fails)
          kernel_time))))
      = [BulkRead 0 8]
   \<and> tm_sec (fst (snd (pcf85363_rtc_read_time (dev [(1, 0x8A), (3, 0x1D)] never_fails)
        kernel_time))) = 10
   \<and> tm_hour (fst (snd (pcf85363_rtc_read_time (dev [(1, 0x8A), (3, 0x1D)] never_fails)
        kernel_time))) = 23
   \<and> tm_year (fst (snd (pcf85363_rtc_read_time (dev [(1, 0x8A), (3, 0x1D)] never_fails)
        kernel_time))) = 100
   \<and> fst (snd (pcf85363_rtc_read_time (dev [(1, 0x8A)] (fails_at 0 (- EIO))) kernel_time))
      = kernel_time"
  using C3_read_time_accepts_every_nibble
          [of "dev [(1, 0x8A), (3, 0x1D)] never_fails" kernel_time]
        C3_read_time_accepts_every_nibble
          [of "dev [(1, 0x8A)] (fails_at 0 (- EIO))" kernel_time]
  by (simp add: fixture_defs dt_defs Let_def EIO_def)

text \<open>
  C3 as the spec states it fails. On a device whose seconds register holds 0x0A and whose
  hours register holds 0xF9, the read succeeds with 10 seconds and 159 hours.
\<close>

theorem C3_bad_nibble_counterexample:
  "fst (pcf85363_rtc_read_time (dev [(1, 0x0A), (3, 0xF9)] never_fails) kernel_time) = 0
   \<and> tm_sec (fst (snd (pcf85363_rtc_read_time (dev [(1, 0x0A), (3, 0xF9)] never_fails)
        kernel_time))) = 10
   \<and> tm_hour (fst (snd (pcf85363_rtc_read_time (dev [(1, 0x0A), (3, 0xF9)] never_fails)
        kernel_time))) = 159"
  by code_simp

text \<open>
  C4, as the code has it. For a time in the kernel's convention, with \<open>tm_year\<close> from 100
  to 199 (the years 2000 to 2099 counted from 1900), the seconds and minutes below 60, the
  hour below 24, the day at most 31, the month at most 12 (so both 0 to 11 and 1 to 12)
  and the weekday below 7, decoding the encoded bytes gives the seven fields back; the
  two fields the codec does not touch stay those of the record decoded into. The order on
  words is the unsigned one, so each bound also keeps the field from being negative.
\<close>

theorem C4_roundtrip_kernel_years:
  assumes "tm_sec t < 60" and "tm_min t < 60" and "tm_hour t < 24" and "tm_mday t \<le> 31"
    and "tm_mon t \<le> 12" and "tm_wday t < 7" and "100 \<le> tm_year t" and "tm_year t < 200"
  shows "pcf85363_decode (pcf85363_encode t) tm
           = t\<lparr>tm_yday := tm_yday tm, tm_isdst := tm_isdst tm\<rparr>
         \<and> pcf85363_decode (pcf85363_encode t) t = t"
proof -
  from assms have hour: "tm_hour t < 100" and day: "tm_mday t < 100"
    by unat_arith+
  from assms show ?thesis
    by (simp add: pcf85363_decode_def pcf85363_encode_def dt_defs
        bcd_roundtrip [OF hour] bcd_roundtrip [OF day]
        bcd_masked_roundtrip month_roundtrip wday_roundtrip year_roundtrip)
qed

theorem C4_roundtrip_witness:
  "tm_year kernel_time = 123
   \<and> pcf85363_encode kernel_time = [0, 0, 5, 9, 0x18, 1, 0x12, 0x23]
   \<and> pcf85363_decode [0, 0, 5, 9, 0x18, 1, 0x12, 0x23] kernel_time = kernel_time"
  using C4_roundtrip_kernel_years [of kernel_time kernel_time]
  by (simp add: kernel_time_def pcf85363_encode_def bin2bcd_def int_rem_def
      signed_modulo_int_def)

text \<open>
  C4 as the spec states it fails. The spec's scenario time has the year 23; it is encoded
  as 0x23 and decoded as 123.
\<close>

theorem C4_year_offset_counterexample:
  "tm_year scenario_time = 23
   \<and> tm_year (pcf85363_decode (pcf85363_encode scenario_time) scenario_time) = 123
   \<and> pcf85363_decode (pcf85363_encode scenario_time) scenario_time \<noteq> scenario_time"
  by code_simp

section \<open>Setting the time\<close>

text \<open>
  C1, at the code. Whenever the first write of \<open>pcf85363_rtc_set_time\<close> goes through, its
  second transaction is a bulk write at register 0 of nine bytes: the eight encoded bytes
  and then the unassigned stack byte. It reaches register 8, the seconds of alarm 1, and
  when it goes through that register holds the stack byte. \<open>pcf85263_rtc_set_time\<close> does
  the same.
\<close>

theorem C1_set_time_bulk_write_has_nine_bytes:
  "let m = regmap p; n = length (log m);
       m' = regmap (snd (pcf85363_rtc_set_time stack p tm));
       m2 = regmap_85263 q; k = length (log m2);
       m2' = regmap_85263 (snd (pcf85263_rtc_set_time stack q tm))
   in (rc m n = 0 \<longrightarrow>
         issued m m' ! 1 = BulkWrite 0 (pcf85363_encode tm @ [stack])
         \<and> length (pcf85363_encode tm @ [stack]) = 9
         \<and> of_nat DT_SECOND_ALM1 \<in> set (writes_of (issued m m' ! 1))
         \<and> (rc m (n + 1) = 0 \<longrightarrow> regs m' (of_nat DT_SECOND_ALM1) = stack))
    \<and> (rc m2 k = 0 \<longrightarrow>
         issued m2 m2' ! 1 = BulkWrite 0 (pcf85263_encode tm @ [stack])
         \<and> length (pcf85263_encode tm @ [stack]) = 9
         \<and> of_nat DT_SECOND_ALM1 \<in> set (writes_of (issued m2 m2' ! 1))
         \<and> (rc m2 (k + 1) = 0 \<longrightarrow> regs m2' (of_nat DT_SECOND_ALM1) = stack))"
  by (auto simp add: pcf85363_rtc_set_time_def pcf85263_rtc_set_time_def
      pcf85363_encode_def pcf85263_encode_def transport_defs dt_defs ctrl_defs nth_append
      split: prod.splits)

text \<open>
  Setting 18 December 2023, 09:05:00 with 0xEE in the stack slot: the three transactions,
  and 0xEE in the alarm register afterwards.
\<close>

theorem C1_set_time_bulk_write_witness:
  "issued (bus [] never_fails)
     (regmap (snd (pcf85363_rtc_set_time 0xEE (dev [] never_fails) kernel_time)))
     = [BulkWrite 0x2e [1, 0xa4],
        BulkWrite 0 [0, 0, 5, 9, 0x18, 1, 0x12, 0x23, 0xEE],
        RegWrite 0x2e 0]
   \<and> writes_of (BulkWrite 0 [0, 0, 5, 9, 0x18, 1, 0x12, 0x23, 0xEE])
     = [0, 1, 2, 3, 4, 5, 6, 7, 8]
   \<and> regs (regmap (snd (pcf85363_rtc_set_time 0xEE (dev [] never_fails) kernel_time))) 8
     = 0xEE
   \<and> regs (regmap_85263 (snd (pcf85263_rtc_set_time 0xEE (dev_85263 [] never_fails)
        kernel_time))) 8
     = 0xEE"
proof -
  have "issued (bus [] never_fails)
     (regmap (snd (pcf85363_rtc_set_time 0xEE (dev [] never_fails) kernel_time)))
     = [BulkWrite 0x2e [1, 0xa4],
        BulkWrite 0 [0, 0, 5, 9, 0x18, 1, 0x12, 0x23, 0xEE],
        RegWrite 0x2e 0]"
    by code_simp
  moreover have "writes_of (BulkWrite 0 [0, 0, 5, 9, 0x18, 1, 0x12, 0x23, 0xEE])
     = [0, 1, 2, 3, 4, 5, 6, 7, 8]"
    by code_simp
  ultimately show ?thesis
    using C1_set_time_bulk_write_has_nine_bytes
      [of "dev [] never_fails" "0xEE" kernel_time "dev_85263 [] never_fails"]
    by (simp add: Let_def fixture_defs dt_defs)
qed

text \<open>
  C6, as the code has it. \<open>pcf85363_rtc_set_time\<close> and \<open>pcf85263_rtc_set_time\<close> return the
  transport's code of the first of their three transactions that fails, unchanged, and
  the code of the last one otherwise: the stop and prescaler write, the bulk time write
  and the resume write are told apart by nothing. When the stop write went through and a
  later transaction failed, the stop register still holds the stop bit.
\<close>

theorem C6_set_time_returns_transport_code:
  "let m = regmap p; n = length (log m); res = pcf85363_rtc_set_time stack p tm;
       m2 = regmap_85263 q; k = length (log m2); res2 = pcf85263_rtc_set_time stack q tm
   in fst res = (if rc m n \<noteq> 0 then rc m n
                 else if rc m (n + 1) \<noteq> 0 then rc m (n + 1) else rc m (n + 2))
    \<and> fst res2 = (if rc m2 k \<noteq> 0 then rc m2 k
                  else if rc m2 (k + 1) \<noteq> 0 then rc m2 (k + 1) else rc m2 (k + 2))
    \<and> (rc m n = 0 \<and> fst res \<noteq> 0 \<longrightarrow>
          regs (regmap (snd res)) CTRL_STOP_EN = STOP_EN_STOP)
    \<and> (rc m2 k = 0 \<and> fst res2 \<noteq> 0 \<longrightarrow>
          regs (regmap_85263 (snd res2)) CTRL_STOP_EN = STOP_EN_STOP)"
  by (auto simp add: pcf85363_rtc_set_time_def pcf85263_rtc_set_time_def
      pcf85363_encode_def pcf85263_encode_def transport_defs dt_defs ctrl_defs
      split: prod.splits)

theorem C6_set_time_failure_witness:
  "fst (pcf85363_rtc_set_time 0 (dev [] (fails_at 1 (- EIO))) kernel_time) = - 5
   \<and> regs (regmap (snd (pcf85363_rtc_set_time 0 (dev [] (fails_at 1 (- EIO)))
        kernel_time))) 0x2e = 1
   \<and> fst (pcf85263_rtc_set_time 0 (dev_85263 [] (fails_at 2 (- EIO))) kernel_time) = - 5
   \<and> regs (regmap_85263 (snd (pcf85263_rtc_set_time 0 (dev_85263 [] (fails_at 2 (- EIO)))
        kernel_time))) 0x2e = 1"
  using C6_set_time_returns_transport_code
    [of "dev [] (fails_at 1 (- EIO))" 0 kernel_time "dev_85263 [] (fails_at 2 (- EIO))"]
  by (simp add: Let_def fixture_defs EIO_def ctrl_defs)

text \<open>
  C6 as the spec states it fails. A transport that fails with \<open>-EIO\<close> makes the call
  return \<open>-EIO\<close> whether it fails the stop write (transaction 0), the bulk time write
  (transaction 1) or the resume write (transaction 2), though the clock is running after
  the first and stopped after the other two.
\<close>

theorem C6_same_error_counterexample:
  "fst (pcf85363_rtc_set_time 0 (dev [] (fails_at 0 (- EIO))) kernel_time) = - EIO
   \<and> fst (pcf85363_rtc_set_time 0 (dev [] (fails_at 1 (- EIO))) kernel_time) = - EIO
   \<and> fst (pcf85363_rtc_set_time 0 (dev [] (fails_at 2 (- EIO))) kernel_time) = - EIO
   \<and> fst (pcf85363_rtc_set_time 0 (dev [] (fails_at 1 (- EIO))) kernel_time)
     = fst (pcf85363_rtc_set_time 0 (dev [] (fails_at 0 (- EIO))) kernel_time)
   \<and> regs (regmap (snd (pcf85363_rtc_set_time 0 (dev [] (fails_at 0 (- EIO)))
        kernel_time))) CTRL_STOP_EN = 0
   \<and> regs (regmap (snd (pcf85363_rtc_set_time 0 (dev [] (fails_at 1 (- EIO)))
        kernel_time))) CTRL_STOP_EN = STOP_EN_STOP
   \<and> regs (regmap (snd (pcf85363_rtc_set_time 0 (dev [] (fails_at 2 (- EIO)))
        kernel_time))) CTRL_STOP_EN = STOP_EN_STOP
   \<and> fst (pcf85263_rtc_set_time 0 (dev_85263 [] (fails_at 0 (- EIO))) kernel_time) = - EIO
   \<and> fst (pcf85263_rtc_set_time 0 (dev_85263 [] (fails_at 1 (- EIO))) kernel_time) = - EIO
   \<and> fst (pcf85263_rtc_set_time 0 (dev_85263 [] (fails_at 2 (- EIO))) kernel_time) = - EIO"
  by (simp add: pcf85363_rtc_set_time_def pcf85263_rtc_set_time_def
      pcf85363_encode_def pcf85263_encode_def transport_defs dt_defs ctrl_defs
      fixture_defs EIO_def)

section \<open>Enabling and disabling the alarm\<close>

text \<open>
  C5, as the code has it. \<open>_pcf85363_rtc_alarm_irq_enable\<close> writes the target state
  directly. Its first transaction is a masked update of the five match-enable bits to the
  target value: all set when enabling, all clear when disabling. When that goes through,
  the second is a masked update of the interrupt-enable bit to the target value. Only
  when disabling, and when the second went through, a third clears the alarm-1 status
  flag. So a call that disables starts by clearing, and a call that enables clears
  nothing before it sets the bits.
\<close>

theorem C5_alarm_irq_enable_writes_target_state:
  "let m = regmap p; n = length (log m); on = (enabled \<noteq> 0);
       m' = regmap (snd (pcf85363_rtc_alarm_irq_enable' p enabled))
   in issued m m' =
        UpdateBits DT_ALARM_EN alarm_flags (if on then alarm_flags else 0) #
        (if rc m n \<noteq> 0 then []
         else UpdateBits CTRL_INTA_EN INT_A1IE (if on then INT_A1IE else 0) #
              (if rc m (n + 1) \<noteq> 0 \<or> on then []
               else [UpdateBits CTRL_FLAGS FLAGS_A1F 0]))"
  by (auto simp add: pcf85363_rtc_alarm_irq_enable'_def transport_defs split: prod.splits)

text \<open>
  Disabling on a transport that works, and on one that fails the second transaction.
\<close>

theorem C5_alarm_irq_enable_witness:
  "issued (bus [] never_fails)
     (regmap (snd (pcf85363_rtc_alarm_irq_enable' (dev [] never_fails) 0)))
     = [UpdateBits 0x10 0x1f 0, UpdateBits 0x29 0x10 0, UpdateBits 0x2b 0x20 0]
   \<and> issued (bus [] (fails_at 1 (- EIO)))
     (regmap (snd (pcf85363_rtc_alarm_irq_enable' (dev [] (fails_at 1 (- EIO))) 0)))
     = [UpdateBits 0x10 0x1f 0, UpdateBits 0x29 0x10 0]"
  using C5_alarm_irq_enable_writes_target_state [of "dev [] never_fails" 0]
        C5_alarm_irq_enable_writes_target_state [of "dev [] (fails_at 1 (- EIO))" 0]
  by (simp add: Let_def fixture_defs EIO_def ctrl_defs)

text \<open>
  C5 as the spec states it fails. Enabling issues two transactions, both setting bits:
  neither the match-enable bits nor the interrupt-enable bit is cleared first.
\<close>

theorem C5_enable_never_clears_counterexample:
  "issued (bus [] never_fails)
     (regmap (snd (pcf85363_rtc_alarm_irq_enable' (dev [] never_fails) 1)))
     = [UpdateBits 0x10 0x1f 0x1f, UpdateBits 0x29 0x10 0x10]
   \<and> UpdateBits DT_ALARM_EN alarm_flags 0 \<notin> set (issued (bus [] never_fails)
        (regmap (snd (pcf85363_rtc_alarm_irq_enable' (dev [] never_fails) 1))))
   \<and> UpdateBits CTRL_INTA_EN INT_A1IE 0 \<notin> set (issued (bus [] never_fails)
        (regmap (snd (pcf85363_rtc_alarm_irq_enable' (dev [] never_fails) 1))))"
  by (simp add: pcf85363_rtc_alarm_irq_enable'_def transport_defs fixture_defs ctrl_defs)

text \<open>
  C8. When \<open>_pcf85363_rtc_alarm_irq_enable\<close> is called with \<open>enabled = 0\<close> and returns 0,
  the last transaction it issued is the masked update that clears \<open>FLAGS_A1F\<close> in the
  status-flags register; afterwards bit 5 of that register is clear and its other bits
  are as before. When it is called with \<open>enabled\<close> not 0, no transaction it issues
  writes the status-flags register, which keeps its value, whether or not the call
  succeeds.
\<close>

theorem C8_alarm_irq_enable_status_flag:
  "let m = regmap p; res = pcf85363_rtc_alarm_irq_enable' p enabled; m' = regmap (snd res)
   in (enabled = 0 \<and> fst res = 0 \<longrightarrow>
         issued m m' \<noteq> [] \<and> last (issued m m') = UpdateBits CTRL_FLAGS FLAGS_A1F 0
         \<and> \<not> bit (regs m' CTRL_FLAGS) 5
         \<and> (\<forall>i. i \<noteq> 5 \<longrightarrow> bit (regs m' CTRL_FLAGS) i = bit (regs m CTRL_FLAGS) i))
    \<and> (enabled \<noteq> 0 \<longrightarrow>
         CTRL_FLAGS \<notin> set (concat (map writes_of (issued m m')))
         \<and> regs m' CTRL_FLAGS = regs m CTRL_FLAGS)"
  by (auto simp add: pcf85363_rtc_alarm_irq_enable'_def transport_defs bit_clear_A1F
      CTRL_FLAGS_def DT_ALARM_EN_def CTRL_INTA_EN_def split: prod.splits)

text \<open>
  On a device whose status register reads 0xFF: disabling ends with the flag cleared,
  enabling leaves 0xFF.
\<close>

theorem C8_status_flag_witness:
  "fst (pcf85363_rtc_alarm_irq_enable' (dev [(0x2b, 0xFF)] never_fails) 0) = 0
   \<and> last (issued (bus [(0x2b, 0xFF)] never_fails)
        (regmap (snd (pcf85363_rtc_alarm_irq_enable' (dev [(0x2b, 0xFF)] never_fails) 0))))
      = UpdateBits 0x2b 0x20 0
   \<and> \<not> bit (regs (regmap (snd (pcf85363_rtc_alarm_irq_enable'
          (dev [(0x2b, 0xFF)] never_fails) 0))) 0x2b) 5
   \<and> regs (regmap (snd (pcf85363_rtc_alarm_irq_enable'
          (dev [(0x2b, 0xFF)] never_fails) 1))) 0x2b = 0xFF"
proof -
  have "fst (pcf85363_rtc_alarm_irq_enable' (dev [(0x2b, 0xFF)] never_fails) 0) = 0"
    by (simp add: pcf85363_rtc_alarm_irq_enable'_def transport_defs fixture_defs)
  then show ?thesis
    using C8_alarm_irq_enable_status_flag [of "dev [(0x2b, 0xFF)] never_fails" 0]
          C8_alarm_irq_enable_status_flag [of "dev [(0x2b, 0xFF)] never_fails" 1]
    by (simp add: Let_def fixture_defs ctrl_defs)
qed

section \<open>The interrupt handler\<close>

text \<open>
  C7. \<open>pcf85363_rtc_handle_irq\<close> issues one read, of the status-flags register. The alarm
  counts as observed (\<open>fired\<close>) when that read succeeds and bit 5 of the register is set.
  Only then does the handler write: one masked update of the status-flags register with
  the mask \<open>FLAGS_A1F\<close> and the value 0, it reports one alarm event to the rtc device and
  returns \<open>IRQ_HANDLED\<close>. Otherwise it returns \<open>IRQ_NONE\<close>, issues nothing after the read
  and leaves every register as it was. In either case every bit of the status-flags
  register but bit 5 and every other register keep their values, and when the update
  goes through bit 5 is clear.
\<close>

theorem C7_handle_irq_clears_only_alarm1_flag:
  "let m = regmap p; res = pcf85363_rtc_handle_irq p; m' = regmap (snd res);
       fired = (rc m (length (log m)) = 0 \<and> bit (regs m CTRL_FLAGS) 5)
   in issued m m' =
        RegRead CTRL_FLAGS # (if fired then [UpdateBits CTRL_FLAGS FLAGS_A1F 0] else [])
    \<and> filter (\<lambda>t. \<not> is_write t) (issued m m') = [RegRead CTRL_FLAGS]
    \<and> filter is_write (issued m m') =
        (if fired then [UpdateBits CTRL_FLAGS FLAGS_A1F 0] else [])
    \<and> (fst res = IRQ_HANDLED) = fired
    \<and> (fst res = IRQ_NONE) = (\<not> fired)
    \<and> rtc (snd res) = rtc p @ (if fired then [(1, RTC_IRQF OR RTC_AF)] else [])
    \<and> (\<forall>i. i \<noteq> 5 \<longrightarrow> bit (regs m' CTRL_FLAGS) i = bit (regs m CTRL_FLAGS) i)
    \<and> (\<forall>r. r \<noteq> CTRL_FLAGS \<longrightarrow> regs m' r = regs m r)
    \<and> (\<not> fired \<longrightarrow> regs m' = regs m)
    \<and> (fired \<and> rc m (length (log m) + 1) = 0 \<longrightarrow> \<not> bit (regs m' CTRL_FLAGS) 5)"
  by (auto simp add: pcf85363_rtc_handle_irq_def transport_defs and_FLAGS_A1F bit_clear_A1F
      split: prod.splits)

text \<open>
  On a device whose status register reads 0xFF the handler acknowledges the alarm and
  bit 7 (the periodic flag) stays set; on one that reads 0xDF it only reads.
\<close>

theorem C7_handle_irq_witness:
  "fst (pcf85363_rtc_handle_irq (dev [(0x2b, 0xFF)] never_fails)) = IRQ_HANDLED
   \<and> issued (bus [(0x2b, 0xFF)] never_fails)
        (regmap (snd (pcf85363_rtc_handle_irq (dev [(0x2b, 0xFF)] never_fails))))
      = [RegRead 0x2b, UpdateBits 0x2b 0x20 0]
   \<and> bit (regs (regmap (snd (pcf85363_rtc_handle_irq (dev [(0x2b, 0xFF)] never_fails)))) 0x2b) 7
   \<and> \<not> bit (regs (regmap (snd (pcf85363_rtc_handle_irq (dev [(0x2b, 0xFF)] never_fails)))) 0x2b) 5
   \<and> fst (pcf85363_rtc_handle_irq (dev [(0x2b, 0xDF)] never_fails)) = IRQ_NONE
   \<and> issued (bus [(0x2b, 0xDF)] never_fails)
        (regmap (snd (pcf85363_rtc_handle_irq (dev [(0x2b, 0xDF)] never_fails))))
      = [RegRead 0x2b]"
  using C7_handle_irq_clears_only_alarm1_flag [of "dev [(0x2b, 0xFF)] never_fails"]
        C7_handle_irq_clears_only_alarm1_flag [of "dev [(0x2b, 0xDF)] never_fails"]
  by (simp add: Let_def fixture_defs ctrl_defs)

section \<open>The scratch memory\<close>

text \<open>
  C2, as the code has it. \<open>pcf85363_nvram_read\<close> and \<open>pcf85363_nvram_write\<close> check
  nothing: for every offset and every length each issues exactly one bulk transaction, at
  register \<open>CTRL_RAM + offset\<close> and of the length given, and returns what the transport
  returned.
\<close>

theorem C2_nvram_passes_through_unchecked:
  "issued (regmap p) (regmap (snd (snd (pcf85363_nvram_read p offset bytes))))
     = [BulkRead (CTRL_RAM + offset) bytes]
   \<and> fst (pcf85363_nvram_read p offset bytes) = rc (regmap p) (length (log (regmap p)))
   \<and> issued (regmap p) (regmap (snd (pcf85363_nvram_write p offset val bytes)))
     = [BulkWrite (CTRL_RAM + offset) (map val [0..<bytes])]
   \<and> fst (pcf85363_nvram_write p offset val bytes) = rc (regmap p) (length (log (regmap p)))"
  by (simp add: pcf85363_nvram_read_def pcf85363_nvram_write_def transport_defs
      split: prod.splits)

theorem C2_nvram_in_bounds_witness:
  "issued (bus [] never_fails)
     (regmap (snd (snd (pcf85363_nvram_read (dev [] never_fails) 0x3e 2))))
     = [BulkRead 0x7e 2]
   \<and> issued (bus [] never_fails)
     (regmap (snd (pcf85363_nvram_write (dev [] never_fails) 0x3e (fill 0xAB) 2)))
     = [BulkWrite 0x7e [0xAB, 0xAB]]"
  using C2_nvram_passes_through_unchecked [of "dev [] never_fails" "0x3e" 2 "fill 0xAB"]
  by (simp add: fixture_defs CTRL_RAM_def numeral_2_eq_2)

text \<open>
  C2 as the spec states it fails. With offset 0x40 and length 1 the range ends past
  \<open>NVRAM_SIZE\<close>, and yet the read and the write each issue their transaction at register
  0x80 and return 0; the write changes that register.
\<close>

theorem C2_nvram_out_of_bounds_counterexample:
  "NVRAM_SIZE < unat (0x40 :: u32) + 1
   \<and> fst (pcf85363_nvram_read (dev [] never_fails) 0x40 1) = 0
   \<and> issued (bus [] never_fails)
        (regmap (snd (snd (pcf85363_nvram_read (dev [] never_fails) 0x40 1))))
      = [BulkRead 0x80 1]
   \<and> fst (pcf85363_nvram_write (dev [] never_fails) 0x40 (fill 0xAB) 1) = 0
   \<and> issued (bus [] never_fails)
        (regmap (snd (pcf85363_nvram_write (dev [] never_fails) 0x40 (fill 0xAB) 1)))
      = [BulkWrite 0x80 [0xAB]]
   \<and> regs (regmap (snd (pcf85363_nvram_write (dev [] never_fails) 0x40 (fill 0xAB) 1))) 0x80
      = 0xAB"
  by (simp add: pcf85363_nvram_read_def pcf85363_nvram_write_def transport_defs
      fixture_defs NVRAM_SIZE_def CTRL_RAM_def)

section \<open>Registration\<close>

text \<open>
  C9. A probe that returns 0 has made one registration: the rtc device named pcf85363
  with the table \<open>rtc_ops\<close>, not \<open>rtc_ops_alarm\<close>. A probe that fails has made none. In
  \<open>rtc_ops\<close> the read-time and set-time callbacks are the two time functions and the three
  alarm callbacks are null. So whatever the probe returns, the entry points reachable
  through what it registered are among read-time and set-time: the alarm functions, the
  interrupt handler and the two nvram functions are not.
\<close>

theorem C9_probe_registers_time_ops_only:
  "let res = pcf85363_probe client
   in (fst res = 0 \<longrightarrow> snd res = [RtcDevice ''pcf85363'' rtc_ops])
    \<and> (fst res \<noteq> 0 \<longrightarrow> snd res = [])
    \<and> RtcDevice ''pcf85363'' rtc_ops_alarm \<notin> set (snd res)
    \<and> set (concat (map reachable (snd res))) \<subseteq> {Read_time, Set_time}
    \<and> ops_entries rtc_ops = [Read_time, Set_time]
    \<and> ops_read_time rtc_ops = Some pcf85363_rtc_read_time
    \<and> ops_set_time rtc_ops = Some pcf85363_rtc_set_time
    \<and> ops_read_alarm rtc_ops = None
    \<and> ops_set_alarm rtc_ops = None
    \<and> ops_alarm_irq_enable rtc_ops = None"
  by (simp add: pcf85363_probe_def rtc_ops_def rtc_ops_alarm_def ops_entries_def
      ENODEV_def ENOMEM_def Let_def)

theorem C9_probe_witness:
  "pcf85363_probe \<lparr>adapter_does_i2c = True, kzalloc_ok = True, rtc_register_err = 0\<rparr>
     = (0, [RtcDevice ''pcf85363'' rtc_ops])
   \<and> concat (map reachable (snd (pcf85363_probe
        \<lparr>adapter_does_i2c = True, kzalloc_ok = True, rtc_register_err = 0\<rparr>)))
     = [Read_time, Set_time]
   \<and> pcf85363_probe \<lparr>adapter_does_i2c = False, kzalloc_ok = True, rtc_register_err = 0\<rparr>
     = (- 19, [])"
  using C9_probe_registers_time_ops_only
          [of "\<lparr>adapter_does_i2c = True, kzalloc_ok = True, rtc_register_err = 0\<rparr>"]
        C9_probe_registers_time_ops_only
          [of "\<lparr>adapter_does_i2c = False, kzalloc_ok = True, rtc_register_err = 0\<rparr>"]
  by (simp add: Let_def pcf85363_probe_def ENODEV_def)

section \<open>The two variants\<close>




end
